theory Spec2Isabelle
  imports Main "HOL-Library.List_Lexorder" "HOL-Library.Char_ord" "HOL-Library.Sublist"
begin

section \<open>Values, errors and text\<close>

text \<open>
  JavaScript values as far as the repository handles them: bind values of a query, the
  fields of a row, the objects a model method returns and the body of an HTTP response.
  An object is an association list in the order of its own keys (\<open>Object.keys\<close>).
\<close>

datatype val =
    VUndefined
  | VNull
  | VBool bool
  | VNum int
  | VStr string
  | VArr "val list"
  | VObj "(string \<times> val) list"

type_synonym obj = "(string \<times> val) list"

text \<open>
  The error classes of \<open>expressError\<close> that the models throw, with their message.
  \<open>StoreError\<close> is an error raised by the store itself (a violated constraint, a
  statement it rejects); the models never construct it.
\<close>

datatype error =
    BadRequestError string
  | NotFoundError string
  | UnauthorizedError string
  | StoreError string

text \<open>\<open>String(n)\<close> of a non-negative integer, as a template literal prints it.\<close>

function decimal :: "nat \<Rightarrow> string" where
  "decimal n =
     (if n < 10 then [''0123456789'' ! n]
      else decimal (n div 10) @ [''0123456789'' ! (n mod 10)])"
  by pat_completeness auto
termination
  by (relation "measure (\<lambda>n. n)") auto

declare decimal.simps [simp del]

text \<open>\<open>Array.prototype.join\<close> on strings.\<close>

fun join :: "string \<Rightarrow> string list \<Rightarrow> string" where
  "join sep [] = []"
| "join sep [x] = x"
| "join sep (x # y # ys) = x @ sep @ join sep (y # ys)"

text \<open>\<open>rows[0]\<close>: the first row, \<open>undefined\<close> when there is none.\<close>

definition rows0 :: "obj list \<Rightarrow> val" where
  "rows0 rows = (case rows of [] \<Rightarrow> VUndefined | r # _ \<Rightarrow> VObj r)"

section \<open>The relational store\<close>

text \<open>
  Modelled from the spec: the module \<open>db\<close> and the schema behind it are not part of the
  sources at hand; section 6 of the specification describes the store as parameterized
  query execution (\<open>query(sql, bindValues) \<rightarrow> rows\<close>) with \<open>RETURNING\<close> clauses and
  case-insensitive pattern matching, and section 3 gives the tables. Rows are kept in
  table order; a unique key is enforced by the store as its last line of defence;
  \<open>ORDER BY\<close> on a text column compares the strings character by character.
\<close>

record company =
  handle :: string
  name :: string
  description :: string
  numEmployees :: int
  logoUrl :: "string option"

record job_summary =
  jid :: int
  title :: string
  salary :: "int option"
  equity :: "string option"

record job = job_summary +
  companyHandle :: string

record user =
  username :: string
  password :: string
  firstName :: string
  lastName :: string
  email :: string
  isAdmin :: bool

record application =
  applicant :: string
  jobId :: int
  status :: string

record store =
  companies :: "company list"
  jobs :: "job list"
  users :: "user list"
  applications :: "application list"
  issued :: "(string \<times> val list) list"

subsection \<open>Pattern matching\<close>

text \<open>
  \<open>LIKE\<close>: in the pattern \<open>%\<close> stands for any sequence of characters, \<open>_\<close> for any
  single character, and a backslash takes the next character literally. \<open>ILIKE\<close>
  compares without regard to (ASCII) case. A pattern that ends in a lone backslash is
  rejected.
\<close>

fun like :: "string \<Rightarrow> string \<Rightarrow> bool" where
  "like [] s = (s = [])"
| "like (p # ps) [] = (p = CHR ''%'' \<and> like ps [])"
| "like (p # ps) (c # cs) =
     (if p = CHR ''%'' then like ps (c # cs) \<or> like (p # ps) cs
      else if p = CHR ''_'' then like ps cs
      else if p = CHR 0x5C then (case ps of [] \<Rightarrow> False | q # qs \<Rightarrow> q = c \<and> like qs cs)
      else p = c \<and> like ps cs)"

fun pattern_ok :: "string \<Rightarrow> bool" where
  "pattern_ok [] = True"
| "pattern_ok [c] = (c \<noteq> CHR 0x5C)"
| "pattern_ok (c # d # r) = (if c = CHR 0x5C then pattern_ok r else pattern_ok (d # r))"

definition lower :: "char \<Rightarrow> char" where
  "lower c =
     (case map_of (zip ''ABCDEFGHIJKLMNOPQRSTUVWXYZ'' ''abcdefghijklmnopqrstuvwxyz'') c of
        None \<Rightarrow> c
      | Some l \<Rightarrow> l)"

definition ilike :: "string \<Rightarrow> string \<Rightarrow> bool" where
  "ilike s pat = like (map lower pat) (map lower s)"

text \<open>The characters with a meaning of their own in a pattern.\<close>

definition wildcards :: "char set" where
  "wildcards = {CHR ''%'', CHR ''_'', CHR 0x5C}"

subsection \<open>Statements\<close>

text \<open>
  The statements the Company model sends, parsed: a statement is what \<open>sql_text\<close>
  prints, with line breaks and indentation of the template literals collapsed to
  single blanks. A placeholder \<open>$n\<close> refers to the \<open>n\<close>-th bind value, counted from 1.
\<close>

datatype comparison = Ge | Le | ILike

datatype where_clause = Clause string comparison nat

type_synonym assignment = "string \<times> nat"

datatype statement =
    SelectCompanyHandle
  | InsertCompany
  | SelectCompanies "where_clause list"
  | SelectCompany
  | SelectCompanyJobs
  | UpdateCompany "assignment list" nat
  | DeleteCompany

fun comparison_text :: "comparison \<Rightarrow> string" where
  "comparison_text Ge = ''>=''"
| "comparison_text Le = ''<=''"
| "comparison_text ILike = ''ILIKE''"

fun clause_text :: "where_clause \<Rightarrow> string" where
  "clause_text (Clause col cmp n) = col @ '' '' @ comparison_text cmp @ '' $'' @ decimal n"

fun assignment_text :: "assignment \<Rightarrow> string" where
  "assignment_text (col, n) = col @ '' = $'' @ decimal n"

definition setCols_text :: "assignment list \<Rightarrow> string" where
  "setCols_text cols = join '', '' (map assignment_text cols)"

definition company_columns :: string where
  \<open>company_columns =
     ''handle, name, description, num_employees AS "numEmployees", logo_url AS "logoUrl"''\<close>

fun sql_text :: "statement \<Rightarrow> string" where
  "sql_text SelectCompanyHandle = ''SELECT handle FROM companies WHERE handle = $1''"
| "sql_text InsertCompany =
     ''INSERT INTO companies (handle, name, description, num_employees, logo_url) ''
     @ ''VALUES ($1, $2, $3, $4, $5) RETURNING '' @ company_columns"
| "sql_text (SelectCompanies whereClauses) =
     ''SELECT '' @ company_columns @ '' FROM companies''
     @ (if length whereClauses > 0
        then '' WHERE '' @ join '' AND '' (map clause_text whereClauses) else [])
     @ '' ORDER BY name''"
| "sql_text SelectCompany =
     ''SELECT '' @ company_columns @ '' FROM companies WHERE handle = $1''"
| "sql_text SelectCompanyJobs =
     ''SELECT id, title, salary, equity FROM jobs WHERE company_handle = $1 ORDER BY id''"
| "sql_text (UpdateCompany setCols handleVarIdx) =
     ''UPDATE companies SET '' @ setCols_text setCols
     @ '' WHERE handle = $'' @ decimal handleVarIdx
     @ '' RETURNING '' @ company_columns"
| "sql_text DeleteCompany = ''DELETE FROM companies WHERE handle = $1 RETURNING handle''"

subsection \<open>Rows as the driver returns them\<close>

definition opt_str :: "string option \<Rightarrow> val" where
  "opt_str s = (case s of None \<Rightarrow> VNull | Some x \<Rightarrow> VStr x)"

definition opt_num :: "int option \<Rightarrow> val" where
  "opt_num n = (case n of None \<Rightarrow> VNull | Some x \<Rightarrow> VNum x)"

definition company_row :: "company \<Rightarrow> obj" where
  "company_row c =
     [(''handle'', VStr (handle c)), (''name'', VStr (name c)),
      (''description'', VStr (description c)), (''numEmployees'', VNum (numEmployees c)),
      (''logoUrl'', opt_str (logoUrl c))]"

definition handle_row :: "company \<Rightarrow> obj" where
  "handle_row c = [(''handle'', VStr (handle c))]"

definition job_row :: "job \<Rightarrow> obj" where
  "job_row j =
     [(''id'', VNum (jid j)), (''title'', VStr (title j)),
      (''salary'', opt_num (salary j)), (''equity'', opt_str (equity j))]"

subsection \<open>Execution\<close>

definition bind :: "val list \<Rightarrow> nat \<Rightarrow> val option" where
  "bind binds n = (if 0 < n \<and> n \<le> length binds then Some (binds ! (n - 1)) else None)"

text \<open>
  Whether the store accepts one clause on \<open>companies\<close> (the bind value exists, the
  operand has the column's type, the pattern is well formed), and whether a row
  satisfies it.
\<close>

fun clause_ok :: "val list \<Rightarrow> where_clause \<Rightarrow> bool" where
  "clause_ok binds (Clause col cmp n) =
     (case (cmp, bind binds n) of
        (Ge, Some (VNum v)) \<Rightarrow> col = ''num_employees''
      | (Le, Some (VNum v)) \<Rightarrow> col = ''num_employees''
      | (ILike, Some (VStr pat)) \<Rightarrow> col = ''name'' \<and> pattern_ok pat
      | _ \<Rightarrow> False)"

fun clause_holds :: "val list \<Rightarrow> where_clause \<Rightarrow> company \<Rightarrow> bool" where
  "clause_holds binds (Clause col cmp n) c =
     (case (cmp, bind binds n) of
        (Ge, Some (VNum v)) \<Rightarrow> numEmployees c \<ge> v
      | (Le, Some (VNum v)) \<Rightarrow> numEmployees c \<le> v
      | (ILike, Some (VStr pat)) \<Rightarrow> ilike (name c) pat
      | _ \<Rightarrow> False)"

subsection \<open>Reading bind values\<close>

text \<open>
  The driver sends a bind value as text (a number in decimal, a boolean as \<open>true\<close> or
  \<open>false\<close>) and sends \<open>undefined\<close> and \<open>null\<close> as \<open>NULL\<close>; the store reads the text by
  the type of the column it is meant for, before it looks at any row. A text column
  reads every text; an integer column reads an optional sign and digits, a numeric
  column also a fraction, a boolean column the words for true and false, each with
  blanks around it. Numbers are integers here and their range is not modelled.
\<close>

datatype coltype = TextCol | IntegerCol | NumericCol | BooleanCol

definition is_space :: "char \<Rightarrow> bool" where
  "is_space c = (c \<in> set [CHR '' '', CHR 0x09, CHR 0x0A, CHR 0x0B, CHR 0x0C, CHR 0x0D])"

definition trim :: "string \<Rightarrow> string" where
  "trim s = rev (dropWhile is_space (rev (dropWhile is_space s)))"

definition is_digit :: "char \<Rightarrow> bool" where
  "is_digit c = (c \<in> set ''0123456789'')"

definition unsign :: "string \<Rightarrow> string" where
  "unsign s =
     (case s of [] \<Rightarrow> [] | c # r \<Rightarrow> if c = CHR ''-'' \<or> c = CHR ''+'' then r else s)"

definition integer_text :: "string \<Rightarrow> bool" where
  "integer_text s = (let u = unsign (trim s) in u \<noteq> [] \<and> list_all is_digit u)"

definition numeric_text :: "string \<Rightarrow> bool" where
  "numeric_text s =
     (let u = unsign (trim s); a = takeWhile is_digit u
      in case dropWhile is_digit u of
           [] \<Rightarrow> a \<noteq> []
         | d # f \<Rightarrow> d = CHR ''.'' \<and> list_all is_digit f \<and> (a \<noteq> [] \<or> f \<noteq> []))"

definition true_words :: "string list" where
  "true_words = [''t'', ''true'', ''y'', ''yes'', ''on'', ''1'']"

definition false_words :: "string list" where
  "false_words = [''f'', ''false'', ''n'', ''no'', ''off'', ''0'']"

definition boolean_text :: "string \<Rightarrow> bool" where
  "boolean_text s = (map lower (trim s) \<in> set (true_words @ false_words))"

fun readable :: "coltype \<Rightarrow> val \<Rightarrow> bool" where
  "readable TextCol v = True"
| "readable IntegerCol v =
     (case v of
        VUndefined \<Rightarrow> True | VNull \<Rightarrow> True | VNum _ \<Rightarrow> True
      | VStr s \<Rightarrow> integer_text s | _ \<Rightarrow> False)"
| "readable NumericCol v =
     (case v of
        VUndefined \<Rightarrow> True | VNull \<Rightarrow> True | VNum _ \<Rightarrow> True
      | VStr s \<Rightarrow> numeric_text s | _ \<Rightarrow> False)"
| "readable BooleanCol v =
     (case v of
        VUndefined \<Rightarrow> True | VNull \<Rightarrow> True | VBool _ \<Rightarrow> True
      | VNum n \<Rightarrow> n = 0 \<or> n = 1 | VStr s \<Rightarrow> boolean_text s | _ \<Rightarrow> False)"

text \<open>
  Whether a table has a column that reads a value: \<open>coltype\<close> gives the type of each
  column of the table.
\<close>

definition reads :: "(string \<Rightarrow> coltype option) \<Rightarrow> string \<Rightarrow> val \<Rightarrow> bool" where
  "reads coltype col v = (case coltype col of None \<Rightarrow> False | Some t \<Rightarrow> readable t v)"

text \<open>
  What is stored in a row that the statement hits: the text, the integer, the numeric
  text or the truth value read from a bind value; \<open>None\<close> when the value is \<open>NULL\<close> or
  cannot be read. An array or an object has no place in the typed rows kept here and
  counts as not readable when a row is hit.
\<close>

definition is_null :: "val \<Rightarrow> bool" where
  "is_null v = (case v of VUndefined \<Rightarrow> True | VNull \<Rightarrow> True | _ \<Rightarrow> False)"

definition int_text :: "int \<Rightarrow> string" where
  "int_text n = (if n < 0 then ''-'' @ decimal (nat (- n)) else decimal (nat n))"

definition read_int :: "string \<Rightarrow> int" where
  "read_int s =
     (let t = trim s;
          m = foldl (\<lambda>a c. 10 * a + (int (of_char c) - 48)) 0 (unsign t)
      in case t of [] \<Rightarrow> m | c # _ \<Rightarrow> if c = CHR ''-'' then - m else m)"

definition text_of :: "val \<Rightarrow> string option" where
  "text_of v =
     (case v of
        VStr s \<Rightarrow> Some s
      | VNum n \<Rightarrow> Some (int_text n)
      | VBool b \<Rightarrow> Some (if b then ''true'' else ''false'')
      | _ \<Rightarrow> None)"

definition integer_of :: "val \<Rightarrow> int option" where
  "integer_of v =
     (case v of
        VNum n \<Rightarrow> Some n
      | VStr s \<Rightarrow> if integer_text s then Some (read_int s) else None
      | _ \<Rightarrow> None)"



text \<open>
  Assignments of an \<open>UPDATE\<close>, for any table: \<open>accepts col v\<close> says whether the table
  has the column and the column reads the value, \<open>setc col v\<close> stores it in a row. The
  store rejects an empty list, a column assigned twice, a placeholder without bind
  value and a value its column does not read, whether or not a row is hit. Then it
  updates the rows that \<open>hitp\<close> selects and yields them and the new table, or nothing
  if a value cannot be stored in a row that is hit.
\<close>

definition assignment_ok :: "(string \<Rightarrow> val \<Rightarrow> bool) \<Rightarrow> val list \<Rightarrow> assignment \<Rightarrow> bool" where
  "assignment_ok accepts binds a =
     (case bind binds (snd a) of None \<Rightarrow> False | Some v \<Rightarrow> accepts (fst a) v)"

definition assignments_ok ::
  "(string \<Rightarrow> val \<Rightarrow> bool) \<Rightarrow> val list \<Rightarrow> assignment list \<Rightarrow> bool" where
  "assignments_ok accepts binds setCols =
     (setCols \<noteq> [] \<and> distinct (map fst setCols)
      \<and> list_all (assignment_ok accepts binds) setCols)"

fun assign ::
  "(string \<Rightarrow> val \<Rightarrow> 'r \<Rightarrow> 'r option) \<Rightarrow> val list \<Rightarrow> assignment list \<Rightarrow> 'r \<Rightarrow> 'r option" where
  "assign setc binds [] r = Some r"
| "assign setc binds ((col, n) # as) r =
     (case bind binds n of
        None \<Rightarrow> None
      | Some v \<Rightarrow>
          (case setc col v r of None \<Rightarrow> None | Some r' \<Rightarrow> assign setc binds as r'))"

fun update_rows ::
  "(string \<Rightarrow> val \<Rightarrow> 'r \<Rightarrow> 'r option) \<Rightarrow> ('r \<Rightarrow> bool) \<Rightarrow> val list \<Rightarrow> assignment list
     \<Rightarrow> 'r list \<Rightarrow> ('r list \<times> 'r list) option" where
  "update_rows setc hitp binds setCols [] = Some ([], [])"
| "update_rows setc hitp binds setCols (r # rs) =
     (case update_rows setc hitp binds setCols rs of
        None \<Rightarrow> None
      | Some (hits, tbl) \<Rightarrow>
          if hitp r
          then (case assign setc binds setCols r of
                  None \<Rightarrow> None
                | Some r' \<Rightarrow> Some (r' # hits, r' # tbl))
          else Some (hits, r # tbl))"

text \<open>
  The columns of \<open>companies\<close>: for an \<open>UPDATE\<close>, the type of each column and a value
  stored in a row (every column but \<open>logo_url\<close> needs a value); for the \<open>INSERT\<close>, whose
  bind values the model has typed already, the logo that is taken and stored.
\<close>

definition company_coltype :: "string \<Rightarrow> coltype option" where
  "company_coltype col =
     (if col = ''handle'' \<or> col = ''name'' \<or> col = ''description'' \<or> col = ''logo_url''
      then Some TextCol
      else if col = ''num_employees'' then Some IntegerCol
      else None)"

definition update_column :: "string \<Rightarrow> val \<Rightarrow> company \<Rightarrow> company option" where
  "update_column col v c =
     (if col = ''handle'' then map_option (\<lambda>s. c\<lparr>handle := s\<rparr>) (text_of v)
      else if col = ''name'' then map_option (\<lambda>s. c\<lparr>name := s\<rparr>) (text_of v)
      else if col = ''description'' then map_option (\<lambda>s. c\<lparr>description := s\<rparr>) (text_of v)
      else if col = ''logo_url''
      then (if is_null v then Some (c\<lparr>logoUrl := None\<rparr>)
            else map_option (\<lambda>s. c\<lparr>logoUrl := Some s\<rparr>) (text_of v))
      else if col = ''num_employees''
      then map_option (\<lambda>n. c\<lparr>numEmployees := n\<rparr>) (integer_of v)
      else None)"

definition column_accepts :: "string \<Rightarrow> val \<Rightarrow> bool" where
  "column_accepts col v =
     (if col = ''handle'' \<or> col = ''name'' \<or> col = ''description''
      then (case v of VStr _ \<Rightarrow> True | _ \<Rightarrow> False)
      else if col = ''num_employees'' then (case v of VNum _ \<Rightarrow> True | _ \<Rightarrow> False)
      else if col = ''logo_url'' then (case v of VStr _ \<Rightarrow> True | VNull \<Rightarrow> True | _ \<Rightarrow> False)
      else False)"

definition set_column :: "string \<Rightarrow> val \<Rightarrow> company \<Rightarrow> company" where
  "set_column col v c =
     (case v of
        VStr s \<Rightarrow>
          if col = ''handle'' then c\<lparr>handle := s\<rparr>
          else if col = ''name'' then c\<lparr>name := s\<rparr>
          else if col = ''description'' then c\<lparr>description := s\<rparr>
          else if col = ''logo_url'' then c\<lparr>logoUrl := Some s\<rparr>
          else c
      | VNum n \<Rightarrow> if col = ''num_employees'' then c\<lparr>numEmployees := n\<rparr> else c
      | VNull \<Rightarrow> if col = ''logo_url'' then c\<lparr>logoUrl := None\<rparr> else c
      | _ \<Rightarrow> c)"

fun exec :: "statement \<Rightarrow> val list \<Rightarrow> store \<Rightarrow> error + (obj list \<times> store)" where
  "exec SelectCompanyHandle binds st =
     (case binds of
        [VStr h] \<Rightarrow> Inr (map handle_row (filter (\<lambda>c. handle c = h) (companies st)), st)
      | _ \<Rightarrow> Inl (StoreError ''bind values''))"
| "exec InsertCompany binds st =
     (case binds of
        [VStr h, VStr n, VStr d, VNum e, l] \<Rightarrow>
          if \<not> column_accepts ''logo_url'' l then Inl (StoreError ''bind values'')
          else if h \<in> set (map handle (companies st)) then Inl (StoreError ''duplicate key'')
          else
            let c = set_column ''logo_url'' l
                      \<lparr>handle = h, name = n, description = d, numEmployees = e, logoUrl = None\<rparr>
            in Inr ([company_row c], st\<lparr>companies := companies st @ [c]\<rparr>)
      | _ \<Rightarrow> Inl (StoreError ''bind values''))"
| "exec (SelectCompanies whereClauses) binds st =
     (if \<not> list_all (clause_ok binds) whereClauses
      then Inl (StoreError ''statement'')
      else Inr (map company_row
                 (sort_key company.name
                   (filter (\<lambda>c. list_all (\<lambda>w. clause_holds binds w c) whereClauses)
                     (companies st))), st))"
| "exec SelectCompany binds st =
     (case binds of
        [VStr h] \<Rightarrow> Inr (map company_row (filter (\<lambda>c. handle c = h) (companies st)), st)
      | _ \<Rightarrow> Inl (StoreError ''bind values''))"
| "exec SelectCompanyJobs binds st =
     (case binds of
        [VStr h] \<Rightarrow>
          Inr (map job_row (sort_key jid (filter (\<lambda>j. companyHandle j = h) (jobs st))), st)
      | _ \<Rightarrow> Inl (StoreError ''bind values''))"
| "exec (UpdateCompany setCols handleVarIdx) binds st =
     (if \<not> assignments_ok (reads company_coltype) binds setCols
      then Inl (StoreError ''statement'')
      else
        (case bind binds handleVarIdx of
           Some (VStr h) \<Rightarrow>
             (case update_rows update_column (\<lambda>c. handle c = h) binds setCols
                     (companies st) of
                None \<Rightarrow> Inl (StoreError ''value'')
              | Some (hits, tbl) \<Rightarrow>
                  if hits \<noteq> [] \<and> \<not> distinct (map handle tbl)
                  then Inl (StoreError ''duplicate key'')
                  else Inr (map company_row hits, st\<lparr>companies := tbl\<rparr>))
         | _ \<Rightarrow> Inl (StoreError ''bind values'')))"
| "exec DeleteCompany binds st =
     (case binds of
        [VStr h] \<Rightarrow>
          let hit = filter (\<lambda>c. handle c = h) (companies st)
          in if hit \<noteq> [] \<and> h \<in> set (map companyHandle (jobs st))
             then Inl (StoreError ''foreign key'')
             else Inr (map handle_row hit,
                       st\<lparr>companies := filter (\<lambda>c. handle c \<noteq> h) (companies st)\<rparr>)
      | _ \<Rightarrow> Inl (StoreError ''bind values''))"

text \<open>
  \<open>db.query(sql, values)\<close>: the statement is recorded as issued, with its text and its
  bind values, and executed; it yields the rows or throws.
\<close>

definition db_query :: "statement \<Rightarrow> val list \<Rightarrow> store \<Rightarrow> (error + obj list) \<times> store" where
  "db_query q binds st =
     (let st1 = st\<lparr>issued := issued st @ [(sql_text q, binds)]\<rparr>
      in case exec q binds st1 of
           Inl e \<Rightarrow> (Inl e, st1)
         | Inr (rows, st2) \<Rightarrow> (Inr rows, st2))"

section \<open>The partial-update SQL builder\<close>

text \<open>
  Modelled from the spec: \<open>sqlForPartialUpdate\<close> of \<open>helpers/sql\<close> is not part of the
  sources at hand. Section 4.1: the input is a sparse mapping of field to new value and
  a mapping from field names to column names for the fields whose column is named
  differently; the output is the ordered \<open>SET column = $n\<close> clause, numbered from 1 in
  the order of the input's keys, and the list of bind values in the same order; an empty
  input fails with "no data", a bad request (section 7). The clause is returned parsed;
  \<open>setCols_text\<close> prints it.
\<close>

definition sqlForPartialUpdate ::
  "obj \<Rightarrow> (string \<times> string) list \<Rightarrow> error + (assignment list \<times> val list)" where
  "sqlForPartialUpdate dataToUpdate jsToSql =
     (let keys = map fst dataToUpdate in
      if length keys = 0 then Inl (BadRequestError ''No data'')
      else
        Inr (map (\<lambda>(colName, idx).
                    (case map_of jsToSql colName of None \<Rightarrow> colName | Some col \<Rightarrow> col, idx + 1))
               (zip keys [0 ..< length keys]),
             map snd dataToUpdate))"

section \<open>The Company model\<close>

text \<open>Truthiness of a value, as \<open>if (v)\<close> and \<open>!v\<close> test it.\<close>

fun truthy :: "val \<Rightarrow> bool" where
  "truthy VUndefined = False"
| "truthy VNull = False"
| "truthy (VBool b) = b"
| "truthy (VNum n) = (n \<noteq> 0)"
| "truthy (VStr s) = (s \<noteq> [])"
| "truthy (VArr _) = True"
| "truthy (VObj _) = True"

text \<open>\<open>o.k = v\<close>: an existing key keeps its place, a new key goes last.\<close>

fun set_prop :: "obj \<Rightarrow> string \<Rightarrow> val \<Rightarrow> obj" where
  "set_prop [] k v = [(k, v)]"
| "set_prop ((k', v') # ps) k v = (if k' = k then (k, v) # ps else (k', v') # set_prop ps k v)"

text \<open>
  \<open>create({ handle, name, description, numEmployees, logoUrl })\<close>: the data is a
  company record; a missing \<open>logoUrl\<close> is bound as \<open>NULL\<close>.
\<close>

definition Company_create :: "company \<Rightarrow> store \<Rightarrow> (error + val) \<times> store" where
  "Company_create data st =
     (case db_query SelectCompanyHandle [VStr (handle data)] st of
        (Inl e, st1) \<Rightarrow> (Inl e, st1)
      | (Inr duplicateCheck, st1) \<Rightarrow>
          if truthy (rows0 duplicateCheck)
          then (Inl (BadRequestError (''Duplicate company: '' @ handle data)), st1)
          else
            (case db_query InsertCompany
                    [VStr (handle data), VStr (company.name data), VStr (description data),
                     VNum (numEmployees data), opt_str (logoUrl data)] st1 of
               (Inl e, st2) \<Rightarrow> (Inl e, st2)
             | (Inr result, st2) \<Rightarrow> (Inr (rows0 result), st2)))"

text \<open>
  The filters of \<open>findAll\<close>: \<open>{ minEmployees, maxEmployees, name }\<close>. A bound is a
  number or \<open>undefined\<close>, which is \<open>None\<close>. The name is a string or one of the falsy
  values \<open>undefined\<close>, \<open>null\<close>, \<open>false\<close> and \<open>0\<close>; \<open>name_val\<close> is the value it is
  and \<open>name_text\<close> what a template literal prints for it.
\<close>

datatype name_filter = NameUndefined | NameNull | NameFalse | NameZero | Name string

fun name_val :: "name_filter \<Rightarrow> val" where
  "name_val NameUndefined = VUndefined"
| "name_val NameNull = VNull"
| "name_val NameFalse = VBool False"
| "name_val NameZero = VNum 0"
| "name_val (Name s) = VStr s"

fun name_text :: "name_filter \<Rightarrow> string" where
  "name_text NameUndefined = ''undefined''"
| "name_text NameNull = ''null''"
| "name_text NameFalse = ''false''"
| "name_text NameZero = ''0''"
| "name_text (Name s) = s"

record searchFilters =
  minEmployees :: "int option"
  maxEmployees :: "int option"
  name :: name_filter

text \<open>\<open>a > b\<close> on numbers; with \<open>undefined\<close> on either side it is false.\<close>

definition js_gt :: "int option \<Rightarrow> int option \<Rightarrow> bool" where
  "js_gt a b = (case (a, b) of (Some x, Some y) \<Rightarrow> x > y | _ \<Rightarrow> False)"

definition Company_findAll :: "searchFilters \<Rightarrow> store \<Rightarrow> (error + obj list) \<times> store" where
  "Company_findAll f st =
     (if js_gt (minEmployees f) (maxEmployees f)
      then (Inl (BadRequestError ''Min employees cannot exceed max employees''), st)
      else
        let whereClauses = []; values = [];
            (whereClauses, values) =
              (case minEmployees f of
                 None \<Rightarrow> (whereClauses, values)
               | Some m \<Rightarrow>
                   let values = values @ [VNum m]
                   in (whereClauses @ [Clause ''num_employees'' Ge (length values)], values));
            (whereClauses, values) =
              (case maxEmployees f of
                 None \<Rightarrow> (whereClauses, values)
               | Some m \<Rightarrow>
                   let values = values @ [VNum m]
                   in (whereClauses @ [Clause ''num_employees'' Le (length values)], values));
            (whereClauses, values) =
              (if truthy (name_val (name f))
               then
                 let values = values @ [VStr (''%'' @ name_text (name f) @ ''%'')]
                 in (whereClauses @ [Clause ''name'' ILike (length values)], values)
               else (whereClauses, values))
        in db_query (SelectCompanies whereClauses) values st)"

definition Company_get :: "string \<Rightarrow> store \<Rightarrow> (error + obj) \<times> store" where
  "Company_get h st =
     (case db_query SelectCompany [VStr h] st of
        (Inl e, st1) \<Rightarrow> (Inl e, st1)
      | (Inr companyRes, st1) \<Rightarrow>
          (case companyRes of
             [] \<Rightarrow> (Inl (NotFoundError (''No company: '' @ h)), st1)
           | company # _ \<Rightarrow>
               (case db_query SelectCompanyJobs [VStr h] st1 of
                  (Inl e, st2) \<Rightarrow> (Inl e, st2)
                | (Inr jobsRes, st2) \<Rightarrow>
                    (Inr (set_prop company ''jobs'' (VArr (map VObj jobsRes))), st2))))"

definition Company_update :: "string \<Rightarrow> obj \<Rightarrow> store \<Rightarrow> (error + obj) \<times> store" where
  "Company_update h data st =
     (case sqlForPartialUpdate data
             [(''numEmployees'', ''num_employees''), (''logoUrl'', ''logo_url'')] of
        Inl e \<Rightarrow> (Inl e, st)
      | Inr (setCols, values) \<Rightarrow>
          let handleVarIdx = length values + 1
          in (case db_query (UpdateCompany setCols handleVarIdx) (values @ [VStr h]) st of
                (Inl e, st1) \<Rightarrow> (Inl e, st1)
              | (Inr result, st1) \<Rightarrow>
                  (case result of
                     [] \<Rightarrow> (Inl (NotFoundError (''No company: '' @ h)), st1)
                   | company # _ \<Rightarrow> (Inr company, st1))))"


section \<open>The Job model\<close>








section \<open>The User model\<close>

text \<open>
  Modelled from the spec: the User model is not part of the sources at hand, only its
  tests are. Section 4.4 describes its methods; the messages are the phrases the tests
  look for in the message of the error. The password hash is an external collaborator
  (section 1): \<open>hash\<close> computes the stored hash of a password and \<open>compare\<close> checks a
  password against a stored hash.
\<close>

record hasher =
  hash :: "string \<Rightarrow> string"
  compare :: "string \<Rightarrow> string \<Rightarrow> bool"

definition user_row :: "user \<Rightarrow> obj" where
  "user_row u =
     [(''username'', VStr (username u)), (''password'', VStr (password u)),
      (''firstName'', VStr (firstName u)), (''lastName'', VStr (lastName u)),
      (''email'', VStr (email u)), (''isAdmin'', VBool (isAdmin u))]"

text \<open>\<open>delete o.k\<close>.\<close>

definition delete_prop :: "obj \<Rightarrow> string \<Rightarrow> obj" where
  "delete_prop ob k = filter (\<lambda>p. fst p \<noteq> k) ob"

text \<open>
  Modelled from the spec: \<open>authenticate(username, password)\<close> looks the user up by username; fails with
  "unauthorized" and the same generic message if the user is absent or if the password
  hash check fails; on success returns the user without the password.
\<close>

definition User_authenticate :: "hasher \<Rightarrow> string \<Rightarrow> string \<Rightarrow> store \<Rightarrow> error + obj" where
  "User_authenticate bcrypt uname pw st =
     (case filter (\<lambda>u. username u = uname) (users st) of
        [] \<Rightarrow> Inl (UnauthorizedError ''Invalid username/password'')
      | u # _ \<Rightarrow>
          if compare bcrypt pw (password u)
          then Inr (delete_prop (user_row u) ''password'')
          else Inl (UnauthorizedError ''Invalid username/password''))"

text \<open>
  Modelled from the spec: \<open>register(data)\<close> fails with "duplicate" if the username exists; stores the hash of
  the password; \<open>isAdmin\<close> is false if unspecified (\<open>None\<close>). The store's own unique key
  is the second line of defence of section 5 and surfaces as the same error.
\<close>

record registration =
  username :: string
  password :: string
  firstName :: string
  lastName :: string
  email :: string
  isAdmin :: "bool option"

definition User_register :: "hasher \<Rightarrow> registration \<Rightarrow> store \<Rightarrow> (error + obj) \<times> store" where
  "User_register bcrypt data st =
     (if filter (\<lambda>u. user.username u = username data) (users st) \<noteq> []
      then (Inl (BadRequestError ''Duplicate username''), st)
      else
        let u = \<lparr>user.username = username data,
                 user.password = hash bcrypt (password data),
                 user.firstName = firstName data,
                 user.lastName = lastName data,
                 user.email = email data,
                 user.isAdmin = (case isAdmin data of None \<Rightarrow> False | Some b \<Rightarrow> b)\<rparr>
        in (Inr (delete_prop (user_row u) ''password''), st\<lparr>users := users st @ [u]\<rparr>))"








text \<open>
  Modelled from the spec: \<open>applyToJob(username, jobId, status = "applied")\<close> fails with "not found" if the
  job or the username does not exist, in two separate existence checks with their own
  messages; fails with "bad request: already applied" if the pair exists; otherwise
  inserts the application row. A status that is not supplied is \<open>None\<close>.
\<close>

definition User_applyToJob ::
  "string \<Rightarrow> int \<Rightarrow> string option \<Rightarrow> store \<Rightarrow> (error + unit) \<times> store" where
  "User_applyToJob uname i status_opt st =
     (let stat = (case status_opt of None \<Rightarrow> ''applied'' | Some s \<Rightarrow> s)
      in if filter (\<lambda>j. jid j = i) (jobs st) = []
         then (Inl (NotFoundError ''No job''), st)
         else if filter (\<lambda>u. user.username u = uname) (users st) = []
         then (Inl (NotFoundError ''No username''), st)
         else if filter (\<lambda>a. applicant a = uname \<and> jobId a = i) (applications st) \<noteq> []
         then (Inl (BadRequestError ''Already applied''), st)
         else (Inr (),
               st\<lparr>applications := applications st
                      @ [\<lparr>applicant = uname, jobId = i, status = stat\<rparr>]\<rparr>))"

section \<open>The API client\<close>

text \<open>
  \<open>JoblyApi.request\<close>. The HTTP library is a parameter: given the request it either
  resolves with the body of the response or rejects with an error value. Reading a
  property of \<open>undefined\<close> or \<open>null\<close> throws a \<open>TypeError\<close>; any other value without
  the property gives \<open>undefined\<close>.
\<close>

datatype thrown = Thrown val | TypeError

datatype outcome = Resolved val | Rejected val

record config =
  url :: string
  http_method :: string
  data :: val
  params :: val
  headers :: obj

definition get_prop :: "val \<Rightarrow> string \<Rightarrow> thrown + val" where
  "get_prop v k =
     (case v of
        VUndefined \<Rightarrow> Inl TypeError
      | VNull \<Rightarrow> Inl TypeError
      | VObj ps \<Rightarrow> Inr (case map_of ps k of None \<Rightarrow> VUndefined | Some x \<Rightarrow> x)
      | _ \<Rightarrow> Inr VUndefined)"

definition isArray :: "val \<Rightarrow> bool" where
  "isArray v = (case v of VArr _ \<Rightarrow> True | _ \<Rightarrow> False)"

definition request ::
  "(config \<Rightarrow> outcome) \<Rightarrow> string \<Rightarrow> string \<Rightarrow> string \<Rightarrow> val \<Rightarrow> string \<Rightarrow> thrown + val" where
  "request axios BASE_URL token endpoint dat meth =
     (let url = BASE_URL @ ''/'' @ endpoint;
          headers = [(''Authorization'', VStr (''Bearer '' @ token))];
          params = (if meth = ''get'' then dat else VObj [])
      in case axios \<lparr>url = url, http_method = meth, data = dat, params = params,
                     headers = headers\<rparr> of
           Resolved body \<Rightarrow> Inr body
         | Rejected err \<Rightarrow>
             (case get_prop err ''response'' of
                Inl t \<Rightarrow> Inl t
              | Inr response \<Rightarrow>
                  (case get_prop response ''data'' of
                     Inl t \<Rightarrow> Inl t
                   | Inr d \<Rightarrow>
                       (case get_prop d ''error'' of
                          Inl t \<Rightarrow> Inl t
                        | Inr e \<Rightarrow>
                            (case get_prop e ''message'' of
                               Inl t \<Rightarrow> Inl t
                             | Inr message \<Rightarrow>
                                 Inl (Thrown (if isArray message then message
                                              else VArr [message])))))))"

section \<open>Example data\<close>

text \<open>
  A small store in the style of the test suite: companies \<open>c1\<close> to \<open>c3\<close>, two jobs of
  \<open>c1\<close> stored out of order, the users \<open>u1\<close> and \<open>u2\<close>, and \<open>u1\<close>'s application
  for the first job.
\<close>

definition c1 :: company where
  "c1 = \<lparr>handle = ''c1'', name = ''C1'', description = ''Desc1'', numEmployees = 1,
         logoUrl = Some ''http://c1.img''\<rparr>"

definition c2 :: company where
  "c2 = \<lparr>handle = ''c2'', name = ''C2'', description = ''Desc2'', numEmployees = 2,
         logoUrl = Some ''http://c2.img''\<rparr>"

definition c3 :: company where
  "c3 = \<lparr>handle = ''c3'', name = ''C3'', description = ''Desc3'', numEmployees = 3,
         logoUrl = None\<rparr>"

definition c0 :: company where
  "c0 = \<lparr>handle = ''c0'', name = ''C0'', description = ''Desc0'', numEmployees = 0,
         logoUrl = None\<rparr>"

definition job1 :: job where
  "job1 = \<lparr>jid = 1, title = ''Job1'', salary = Some 100, equity = Some ''0.1'',
           companyHandle = ''c1''\<rparr>"

definition job2 :: job where
  "job2 = \<lparr>jid = 2, title = ''Job2'', salary = Some 200, equity = None,
           companyHandle = ''c1''\<rparr>"

definition u1 :: user where
  "u1 = \<lparr>user.username = ''u1'', user.password = ''#password1'', user.firstName = ''U1F'',
         user.lastName = ''U1L'', user.email = ''u1@email.com'', user.isAdmin = False\<rparr>"

definition u2 :: user where
  "u2 = \<lparr>user.username = ''u2'', user.password = ''#password2'', user.firstName = ''U2F'',
         user.lastName = ''U2L'', user.email = ''u2@email.com'', user.isAdmin = False\<rparr>"

definition test_store :: store where
  "test_store =
     \<lparr>companies = [c3, c1, c2], jobs = [job2, job1], users = [u1, u2],
      applications = [\<lparr>applicant = ''u1'', jobId = 1, status = ''applied''\<rparr>],
      issued = []\<rparr>"

definition zero_store :: store where
  "zero_store = test_store\<lparr>companies := [c3, c0, c1]\<rparr>"

definition new_user :: registration where
  "new_user = \<lparr>username = ''new'', password = ''password'', firstName = ''Test'',
               lastName = ''Tester'', email = ''test@test.com'', isAdmin = None\<rparr>"

definition test_hasher :: hasher where
  "test_hasher = \<lparr>hash = (\<lambda>pw. ''#'' @ pw), compare = (\<lambda>pw h. h = ''#'' @ pw)\<rparr>"

section \<open>Vocabulary of the properties\<close>

text \<open>
  Following the spec's words for \<open>findAll\<close> (section 4.2): the provided filters, in
  the order \<open>minEmployees\<close>, \<open>maxEmployees\<close>, \<open>name\<close>, each with the column, the
  comparison and the operand of its clause (a bound counts as provided when it is
  defined, a name when it is truthy); the clauses with their placeholders numbered from
  1; and the conjunctive predicate on a company that the provided filters stand for.
\<close>

definition provided :: "searchFilters \<Rightarrow> (string \<times> comparison \<times> val) list" where
  "provided f =
     (case minEmployees f of None \<Rightarrow> [] | Some m \<Rightarrow> [(''num_employees'', Ge, VNum m)])
     @ (case maxEmployees f of None \<Rightarrow> [] | Some m \<Rightarrow> [(''num_employees'', Le, VNum m)])
     @ (if truthy (name_val (name f))
        then [(''name'', ILike, VStr (''%'' @ name_text (name f) @ ''%''))] else [])"

fun numbered_from :: "nat \<Rightarrow> (string \<times> comparison \<times> val) list \<Rightarrow> where_clause list" where
  "numbered_from i [] = []"
| "numbered_from i ((col, cmp, v) # ps) = Clause col cmp i # numbered_from (Suc i) ps"

definition numbered :: "(string \<times> comparison \<times> val) list \<Rightarrow> where_clause list" where
  "numbered ps = numbered_from 1 ps"

definition matches :: "searchFilters \<Rightarrow> company \<Rightarrow> bool" where
  "matches f c =
     ((case minEmployees f of None \<Rightarrow> True | Some m \<Rightarrow> m \<le> numEmployees c)
      \<and> (case maxEmployees f of None \<Rightarrow> True | Some m \<Rightarrow> numEmployees c \<le> m)
      \<and> (\<not> truthy (name_val (name f))
          \<or> sublist (map lower (name_text (name f))) (map lower (company.name c))))"

text \<open>
  The same predicate with the name clause as the store reads it: the pattern
  \<open>%name%\<close> under \<open>ILIKE\<close>.
\<close>

definition selected :: "searchFilters \<Rightarrow> company \<Rightarrow> bool" where
  "selected f c =
     ((case minEmployees f of None \<Rightarrow> True | Some m \<Rightarrow> m \<le> numEmployees c)
      \<and> (case maxEmployees f of None \<Rightarrow> True | Some m \<Rightarrow> numEmployees c \<le> m)
      \<and> (\<not> truthy (name_val (name f))
          \<or> ilike (company.name c) (''%'' @ name_text (name f) @ ''%'')))"

text \<open>
  An update that the store takes: it is not empty, no column is named twice, and every
  field is a column of the table, under its own name or the name \<open>jsToSql\<close> gives it,
  with a value that can be read as the type of that column.
\<close>

definition column_of :: "(string \<times> string) list \<Rightarrow> string \<Rightarrow> string" where
  "column_of jsToSql k = (case map_of jsToSql k of None \<Rightarrow> k | Some col \<Rightarrow> col)"

definition updatable :: "(string \<times> string) list \<Rightarrow> (string \<Rightarrow> val \<Rightarrow> bool) \<Rightarrow> obj \<Rightarrow> bool" where
  "updatable jsToSql accepts upd =
     (upd \<noteq> [] \<and> distinct (map (\<lambda>p. column_of jsToSql (fst p)) upd)
      \<and> list_all (\<lambda>p. accepts (column_of jsToSql (fst p)) (snd p)) upd)"

text \<open>An array of message strings.\<close>

definition string_array :: "val \<Rightarrow> bool" where
  "string_array v =
     (case v of
        VArr xs \<Rightarrow> list_all (\<lambda>x. case x of VStr _ \<Rightarrow> True | _ \<Rightarrow> False) xs
      | _ \<Rightarrow> False)"

section \<open>Text and patterns\<close>

lemma decimal_digit: "n < 10 \<Longrightarrow> decimal n = [''0123456789'' ! n]"
  by (simp add: decimal.simps)

text \<open>A pattern that ends in \<open>%\<close> never ends in a lone backslash.\<close>

lemma pattern_ok_percent: "pattern_ok (p @ ''%'')"
  by (induction p rule: pattern_ok.induct) auto

lemma like_percent: "like (CHR ''%'' # p) s \<longleftrightarrow> (\<exists>a b. s = a @ b \<and> like p b)"
proof (induction s)
  case Nil
  then show ?case by simp
next
  case (Cons c cs)
  show ?case
    by (simp add: Cons Cons_eq_append_conv) blast
qed

lemma like_literal:
  "c \<notin> wildcards \<Longrightarrow> like (c # p) s \<longleftrightarrow> (\<exists>t. s = c # t \<and> like p t)"
  by (cases s) (auto simp: wildcards_def)

lemma like_literals:
  "set l \<inter> wildcards = {} \<Longrightarrow> like (l @ p) s \<longleftrightarrow> (\<exists>t. s = l @ t \<and> like p t)"
  by (induction l arbitrary: s) (auto simp: like_literal)

lemma like_any: "like ''%'' s"
  by (simp add: like_percent)

lemma like_substring:
  "set l \<inter> wildcards = {} \<Longrightarrow> like (''%'' @ l @ ''%'') s \<longleftrightarrow> sublist l s"
  by (auto simp: like_percent like_literals like_any sublist_def)

lemma lower_wildcard: "lower c \<in> wildcards \<longleftrightarrow> c \<in> wildcards"
  by (auto simp: lower_def wildcards_def split: option.splits if_splits)

lemma lower_literals: "set l \<inter> wildcards = {} \<Longrightarrow> set (map lower l) \<inter> wildcards = {}"
  using lower_wildcard by auto

text \<open>Without wildcards in \<open>n\<close>, the pattern \<open>%n%\<close> is a substring test.\<close>

lemma ilike_substring:
  "set n \<inter> wildcards = {} \<Longrightarrow>
   ilike s (''%'' @ n @ ''%'') \<longleftrightarrow> sublist (map lower n) (map lower s)"
  using like_substring [OF lower_literals, of n "map lower s"]
  by (simp add: ilike_def lower_def)

section \<open>Company.findAll\<close>

text \<open>
  C2. If both bounds are given and \<open>minEmployees > maxEmployees\<close>, then \<open>findAll\<close>
  throws the BadRequest error, whatever the name filter is, and the store is returned as
  it was: in particular no statement was issued.
\<close>

theorem findAll_min_exceeds_max:
  assumes "minEmployees f = Some lo" and "maxEmployees f = Some hi" and "lo > hi"
  shows "Company_findAll f st =
           (Inl (BadRequestError ''Min employees cannot exceed max employees''), st)"
  using assms by (simp add: Company_findAll_def js_gt_def)

theorem findAll_min_exceeds_max_witness:
  "Company_findAll \<lparr>minEmployees = Some 3, maxEmployees = Some 2, name = Name ''c''\<rparr> test_store
     = (Inl (BadRequestError ''Min employees cannot exceed max employees''), test_store)
   \<and> issued test_store = []"
  using findAll_min_exceeds_max
          [of "\<lparr>minEmployees = Some 3, maxEmployees = Some 2, name = Name ''c''\<rparr>" 3 2 test_store]
  by (simp add: test_store_def)

text \<open>
  With valid bounds, \<open>findAll\<close> issues one \<open>SELECT\<close> whose clauses are those of the
  provided filters, numbered from 1, and whose bind values are their operands; the store
  accepts the statement.
\<close>

lemma numbered_from_Nil: "numbered_from i ps = [] \<longleftrightarrow> ps = []"
  by (cases ps) auto

lemma findAll_query:
  assumes "\<not> js_gt (minEmployees f) (maxEmployees f)"
  shows "Company_findAll f st =
           db_query (SelectCompanies (numbered (provided f))) (map (snd \<circ> snd) (provided f)) st"
  using assms
  by (simp add: Company_findAll_def provided_def numbered_def
           split: option.splits)

lemma provided_ok:
  "list_all (clause_ok (map (snd \<circ> snd) (provided f))) (numbered (provided f))"
  using pattern_ok_percent [of "CHR ''%'' # n" for n]
  by (simp add: provided_def numbered_def bind_def split: option.splits)

lemma provided_selected:
  "list_all (\<lambda>w. clause_holds (map (snd \<circ> snd) (provided f)) w c) (numbered (provided f))
   \<longleftrightarrow> selected f c"
  by (auto simp add: provided_def numbered_def bind_def selected_def
           split: option.splits)

lemma wildcard_free:
  assumes "\<forall>n. name f = Name n \<longrightarrow> set n \<inter> wildcards = {}"
  shows "set (name_text (name f)) \<inter> wildcards = {}"
  using assms by (cases "name f") (auto simp: wildcards_def)

lemma provided_holds:
  assumes "\<forall>n. name f = Name n \<longrightarrow> set n \<inter> wildcards = {}"
  shows "list_all (\<lambda>w. clause_holds (map (snd \<circ> snd) (provided f)) w c) (numbered (provided f))
         \<longleftrightarrow> matches f c"
  using ilike_substring [OF wildcard_free [OF assms], of "company.name c"]
  by (simp add: provided_selected selected_def matches_def)

lemma findAll_select:
  assumes "\<not> js_gt (minEmployees f) (maxEmployees f)"
  shows "Company_findAll f st =
     (Inr (map company_row (sort_key company.name (filter (selected f) (companies st)))),
      st\<lparr>issued := issued st
          @ [(sql_text (SelectCompanies (numbered (provided f))), map (snd \<circ> snd) (provided f))]\<rparr>)"
  using provided_ok [of f]
  by (simp add: findAll_query [OF assms] db_query_def provided_selected)

text \<open>
  C3, as amended. For every valid filter object (a bound absent, or
  \<open>minEmployees \<le> maxEmployees\<close>) whose name contains none of the pattern characters
  \<open>%\<close>, \<open>_\<close> and backslash, \<open>findAll\<close> issues one statement whose \<open>WHERE\<close> part is
  the conjunction (\<open>AND\<close>) of exactly one clause per provided filter, and returns the
  rows that satisfy every provided filter (the bounds on \<open>num_employees\<close>, the name as
  a case-insensitive substring), ordered by name ascending; with no filters it returns
  all rows.
\<close>

theorem findAll_filters:
  assumes "\<not> js_gt (minEmployees f) (maxEmployees f)"
    and "\<forall>n. name f = Name n \<longrightarrow> set n \<inter> wildcards = {}"
  shows "\<exists>rows.
     Company_findAll f st =
       (Inr (map company_row rows),
        st\<lparr>issued := issued st
            @ [(sql_text (SelectCompanies (numbered (provided f))),
                map (snd \<circ> snd) (provided f))]\<rparr>)
     \<and> sql_text (SelectCompanies (numbered (provided f))) =
         ''SELECT '' @ company_columns @ '' FROM companies''
         @ (if provided f = [] then []
            else '' WHERE '' @ join '' AND '' (map clause_text (numbered (provided f))))
         @ '' ORDER BY name''
     \<and> rows = sort_key company.name (filter (matches f) (companies st))
     \<and> sorted (map company.name rows)
     \<and> (minEmployees f = None \<and> maxEmployees f = None \<and> \<not> truthy (name_val (name f))
          \<longrightarrow> rows = sort_key company.name (companies st))"
proof -
  let ?rows = "sort_key company.name (filter (matches f) (companies st))"
  have "selected f = matches f"
    using provided_holds [OF assms(2)] by (simp add: fun_eq_iff provided_selected)
  then have 1: "Company_findAll f st =
       (Inr (map company_row ?rows),
        st\<lparr>issued := issued st
            @ [(sql_text (SelectCompanies (numbered (provided f))),
                map (snd \<circ> snd) (provided f))]\<rparr>)"
    using findAll_select [OF assms(1), of st] by simp
  have 2: "sql_text (SelectCompanies (numbered (provided f))) =
         ''SELECT '' @ company_columns @ '' FROM companies''
         @ (if provided f = [] then []
            else '' WHERE '' @ join '' AND '' (map clause_text (numbered (provided f))))
         @ '' ORDER BY name''"
    by (simp add: numbered_def numbered_from_Nil)
  have 3: "sorted (map company.name ?rows)"
    by simp
  have 4: "minEmployees f = None \<and> maxEmployees f = None \<and> \<not> truthy (name_val (name f))
          \<longrightarrow> ?rows = sort_key company.name (companies st)"
    by (simp add: matches_def [abs_def])
  from 1 2 3 4 show ?thesis by blast
qed

theorem findAll_filters_witness:
  "fst (Company_findAll \<lparr>minEmployees = Some 2, maxEmployees = Some 3, name = Name ''c''\<rparr> test_store)
     = Inr (map company_row [c2, c3])"
  using findAll_filters
     [of "\<lparr>minEmployees = Some 2, maxEmployees = Some 3, name = Name ''c''\<rparr>" test_store]
  by (auto simp add: js_gt_def wildcards_def matches_def test_store_def c1_def c2_def c3_def lower_def sublist_code)

text \<open>
  The claim as stated fails for a name with a pattern character: the filter
  \<open>name = "_"\<close> returns every company of the test store, although no name contains an
  underscore.
\<close>

theorem findAll_wildcard_counterexample:
  "fst (Company_findAll \<lparr>minEmployees = None, maxEmployees = None, name = Name ''_''\<rparr> test_store)
     = Inr (map company_row [c1, c2, c3])
   \<and> \<not> sublist (map lower ''_'') (map lower (company.name c1))"
  by (simp add: Company_findAll_def db_query_def test_store_def bind_def ilike_def lower_def
        js_gt_def c1_def c2_def c3_def sublist_code)

text \<open>
  C10. A name filter that is falsy (the empty string, \<open>null\<close>, \<open>false\<close>, \<open>0\<close>) behaves
  exactly as an omitted one: the same result and the same statement issued; with valid
  bounds no name clause is issued and the rows returned are all the companies within
  the bounds, ordered by name. A bound of 0 is honoured: with \<open>minEmployees = 0\<close> the
  statement carries the clause \<open>num_employees >= $1\<close> bound to 0, with
  \<open>maxEmployees = 0\<close> it carries a clause \<open>num_employees <= $k\<close> bound to 0, and the
  rows returned are exactly the companies that meet that bound and the other clauses.
\<close>

theorem findAll_falsy_name_zero_bounds:
  "(\<not> truthy (name_val v) \<longrightarrow>
      Company_findAll (f\<lparr>name := v\<rparr>) st = Company_findAll (f\<lparr>name := NameUndefined\<rparr>) st)
   \<and> (\<not> truthy (name_val (name f)) \<and> \<not> js_gt (minEmployees f) (maxEmployees f) \<longrightarrow>
        Company_findAll f st =
          (Inr (map company_row (sort_key company.name (filter
                  (\<lambda>c. (case minEmployees f of None \<Rightarrow> True | Some m \<Rightarrow> m \<le> numEmployees c)
                      \<and> (case maxEmployees f of None \<Rightarrow> True | Some m \<Rightarrow> numEmployees c \<le> m))
                  (companies st)))),
           st\<lparr>issued := issued st
               @ [(sql_text (SelectCompanies (numbered
                     ((case minEmployees f of None \<Rightarrow> []
                       | Some m \<Rightarrow> [(''num_employees'', Ge, VNum m)])
                      @ (case maxEmployees f of None \<Rightarrow> []
                         | Some m \<Rightarrow> [(''num_employees'', Le, VNum m)])))),
                   (case minEmployees f of None \<Rightarrow> [] | Some m \<Rightarrow> [VNum m])
                   @ (case maxEmployees f of None \<Rightarrow> [] | Some m \<Rightarrow> [VNum m]))]\<rparr>))
   \<and> (minEmployees f = Some 0 \<and> \<not> js_gt (minEmployees f) (maxEmployees f) \<longrightarrow>
        (\<exists>ws vs.
           Company_findAll f st =
             (Inr (map company_row (sort_key company.name (filter
                     (\<lambda>c. 0 \<le> numEmployees c
                         \<and> (case maxEmployees f of None \<Rightarrow> True | Some m \<Rightarrow> numEmployees c \<le> m)
                         \<and> (\<not> truthy (name_val (name f))
                             \<or> ilike (company.name c) (''%'' @ name_text (name f) @ ''%'')))
                     (companies st)))),
              st\<lparr>issued := issued st
                  @ [(sql_text (SelectCompanies (Clause ''num_employees'' Ge 1 # ws)),
                      VNum 0 # vs)]\<rparr>)))
   \<and> (maxEmployees f = Some 0 \<and> \<not> js_gt (minEmployees f) (maxEmployees f) \<longrightarrow>
        (\<exists>ws vs k.
           Company_findAll f st =
             (Inr (map company_row (sort_key company.name (filter
                     (\<lambda>c. (case minEmployees f of None \<Rightarrow> True | Some m \<Rightarrow> m \<le> numEmployees c)
                         \<and> numEmployees c \<le> 0
                         \<and> (\<not> truthy (name_val (name f))
                             \<or> ilike (company.name c) (''%'' @ name_text (name f) @ ''%'')))
                     (companies st)))),
              st\<lparr>issued := issued st @ [(sql_text (SelectCompanies ws), vs)]\<rparr>)
           \<and> Clause ''num_employees'' Le k \<in> set ws \<and> bind vs k = Some (VNum 0)))"
proof (intro conjI impI)
  assume "\<not> truthy (name_val v)"
  then show "Company_findAll (f\<lparr>name := v\<rparr>) st
             = Company_findAll (f\<lparr>name := NameUndefined\<rparr>) st"
    by (simp add: Company_findAll_def)
next
  assume a: "\<not> truthy (name_val (name f)) \<and> \<not> js_gt (minEmployees f) (maxEmployees f)"
  then have v: "\<not> js_gt (minEmployees f) (maxEmployees f)" by blast
  have p: "provided f =
             (case minEmployees f of None \<Rightarrow> [] | Some m \<Rightarrow> [(''num_employees'', Ge, VNum m)])
             @ (case maxEmployees f of None \<Rightarrow> [] | Some m \<Rightarrow> [(''num_employees'', Le, VNum m)])"
    using a by (simp add: provided_def)
  have b: "map (snd \<circ> snd) (provided f) =
             (case minEmployees f of None \<Rightarrow> [] | Some m \<Rightarrow> [VNum m])
             @ (case maxEmployees f of None \<Rightarrow> [] | Some m \<Rightarrow> [VNum m])"
    by (simp add: p split: option.splits)
  have s: "selected f =
             (\<lambda>c. (case minEmployees f of None \<Rightarrow> True | Some m \<Rightarrow> m \<le> numEmployees c)
                 \<and> (case maxEmployees f of None \<Rightarrow> True | Some m \<Rightarrow> numEmployees c \<le> m))"
    using a by (simp add: selected_def fun_eq_iff)
  show "Company_findAll f st =
          (Inr (map company_row (sort_key company.name (filter
                  (\<lambda>c. (case minEmployees f of None \<Rightarrow> True | Some m \<Rightarrow> m \<le> numEmployees c)
                      \<and> (case maxEmployees f of None \<Rightarrow> True | Some m \<Rightarrow> numEmployees c \<le> m))
                  (companies st)))),
           st\<lparr>issued := issued st
               @ [(sql_text (SelectCompanies (numbered
                     ((case minEmployees f of None \<Rightarrow> []
                       | Some m \<Rightarrow> [(''num_employees'', Ge, VNum m)])
                      @ (case maxEmployees f of None \<Rightarrow> []
                         | Some m \<Rightarrow> [(''num_employees'', Le, VNum m)])))),
                   (case minEmployees f of None \<Rightarrow> [] | Some m \<Rightarrow> [VNum m])
                   @ (case maxEmployees f of None \<Rightarrow> [] | Some m \<Rightarrow> [VNum m]))]\<rparr>)"
    using findAll_select [OF v, of st] by (simp only: b [symmetric] s [symmetric] p [symmetric])
next
  assume a: "minEmployees f = Some 0 \<and> \<not> js_gt (minEmployees f) (maxEmployees f)"
  then have v: "\<not> js_gt (minEmployees f) (maxEmployees f)" by blast
  obtain ws where ws: "numbered (provided f) = Clause ''num_employees'' Ge 1 # ws"
    using a by (simp add: provided_def numbered_def)
  obtain vs where vs: "map (snd \<circ> snd) (provided f) = VNum 0 # vs"
    using a by (simp add: provided_def)
  have s: "selected f =
             (\<lambda>c. 0 \<le> numEmployees c
                 \<and> (case maxEmployees f of None \<Rightarrow> True | Some m \<Rightarrow> numEmployees c \<le> m)
                 \<and> (\<not> truthy (name_val (name f))
                     \<or> ilike (company.name c) (''%'' @ name_text (name f) @ ''%'')))"
    using a by (simp add: selected_def fun_eq_iff)
  have "Company_findAll f st =
             (Inr (map company_row (sort_key company.name (filter
                     (\<lambda>c. 0 \<le> numEmployees c
                         \<and> (case maxEmployees f of None \<Rightarrow> True | Some m \<Rightarrow> numEmployees c \<le> m)
                         \<and> (\<not> truthy (name_val (name f))
                             \<or> ilike (company.name c) (''%'' @ name_text (name f) @ ''%'')))
                     (companies st)))),
              st\<lparr>issued := issued st
                  @ [(sql_text (SelectCompanies (Clause ''num_employees'' Ge 1 # ws)),
                      VNum 0 # vs)]\<rparr>)"
    using findAll_select [OF v, of st] by (simp only: ws [symmetric] vs [symmetric] s [symmetric])
  then show "\<exists>ws vs.
           Company_findAll f st =
             (Inr (map company_row (sort_key company.name (filter
                     (\<lambda>c. 0 \<le> numEmployees c
                         \<and> (case maxEmployees f of None \<Rightarrow> True | Some m \<Rightarrow> numEmployees c \<le> m)
                         \<and> (\<not> truthy (name_val (name f))
                             \<or> ilike (company.name c) (''%'' @ name_text (name f) @ ''%'')))
                     (companies st)))),
              st\<lparr>issued := issued st
                  @ [(sql_text (SelectCompanies (Clause ''num_employees'' Ge 1 # ws)),
                      VNum 0 # vs)]\<rparr>)"
    by blast
next
  assume a: "maxEmployees f = Some 0 \<and> \<not> js_gt (minEmployees f) (maxEmployees f)"
  then have v: "\<not> js_gt (minEmployees f) (maxEmployees f)" by blast
  obtain k where k: "Clause ''num_employees'' Le k \<in> set (numbered (provided f))"
            "bind (map (snd \<circ> snd) (provided f)) k = Some (VNum 0)"
  proof (cases "minEmployees f")
    case None
    with a have "Clause ''num_employees'' Le 1 \<in> set (numbered (provided f))"
            "bind (map (snd \<circ> snd) (provided f)) 1 = Some (VNum 0)"
      by (simp_all add: provided_def numbered_def bind_def)
    then show ?thesis using that by blast
  next
    case (Some m)
    with a have "Clause ''num_employees'' Le 2 \<in> set (numbered (provided f))"
            "bind (map (snd \<circ> snd) (provided f)) 2 = Some (VNum 0)"
      by (simp_all add: provided_def numbered_def bind_def)
    then show ?thesis using that by blast
  qed
  have s: "selected f =
             (\<lambda>c. (case minEmployees f of None \<Rightarrow> True | Some m \<Rightarrow> m \<le> numEmployees c)
                 \<and> numEmployees c \<le> 0
                 \<and> (\<not> truthy (name_val (name f))
                     \<or> ilike (company.name c) (''%'' @ name_text (name f) @ ''%'')))"
    using a by (simp add: selected_def fun_eq_iff)
  have "Company_findAll f st =
             (Inr (map company_row (sort_key company.name (filter
                     (\<lambda>c. (case minEmployees f of None \<Rightarrow> True | Some m \<Rightarrow> m \<le> numEmployees c)
                         \<and> numEmployees c \<le> 0
                         \<and> (\<not> truthy (name_val (name f))
                             \<or> ilike (company.name c) (''%'' @ name_text (name f) @ ''%'')))
                     (companies st)))),
              st\<lparr>issued := issued st
                  @ [(sql_text (SelectCompanies (numbered (provided f))),
                      map (snd \<circ> snd) (provided f))]\<rparr>)"
    using findAll_select [OF v, of st] by (simp only: s [symmetric])
  with k show "\<exists>ws vs k.
           Company_findAll f st =
             (Inr (map company_row (sort_key company.name (filter
                     (\<lambda>c. (case minEmployees f of None \<Rightarrow> True | Some m \<Rightarrow> m \<le> numEmployees c)
                         \<and> numEmployees c \<le> 0
                         \<and> (\<not> truthy (name_val (name f))
                             \<or> ilike (company.name c) (''%'' @ name_text (name f) @ ''%'')))
                     (companies st)))),
              st\<lparr>issued := issued st @ [(sql_text (SelectCompanies ws), vs)]\<rparr>)
           \<and> Clause ''num_employees'' Le k \<in> set ws \<and> bind vs k = Some (VNum 0)"
    by blast
qed

theorem findAll_falsy_name_zero_bounds_witness:
  "Company_findAll \<lparr>minEmployees = Some 0, maxEmployees = None, name = NameZero\<rparr> test_store
     = Company_findAll \<lparr>minEmployees = Some 0, maxEmployees = None, name = NameUndefined\<rparr>
         test_store
   \<and> fst (Company_findAll \<lparr>minEmployees = Some 0, maxEmployees = None, name = Name ''''\<rparr>
            test_store)
     = Inr (map company_row [c1, c2, c3])
   \<and> fst (Company_findAll \<lparr>minEmployees = None, maxEmployees = Some 0, name = NameNull\<rparr>
            zero_store)
     = Inr (map company_row [c0])
   \<and> companies zero_store = [c3, c0, c1]"
proof -
  have 1: "Company_findAll \<lparr>minEmployees = Some 0, maxEmployees = None, name = NameZero\<rparr>
             test_store
           = Company_findAll \<lparr>minEmployees = Some 0, maxEmployees = None, name = NameUndefined\<rparr>
               test_store"
    using findAll_falsy_name_zero_bounds
            [of NameZero "\<lparr>minEmployees = Some 0, maxEmployees = None, name = Name ''''\<rparr>"
                test_store]
    by simp
  have 2: "fst (Company_findAll \<lparr>minEmployees = Some 0, maxEmployees = None, name = Name []\<rparr>
                  test_store)
           = Inr (map company_row [c1, c2, c3])"
    using findAll_falsy_name_zero_bounds
            [THEN conjunct2, THEN conjunct1,
             of "\<lparr>minEmployees = Some 0, maxEmployees = None, name = Name []\<rparr>" test_store]
    by (simp add: js_gt_def test_store_def c1_def c2_def c3_def del: sql_text.simps)
  have 3: "fst (Company_findAll \<lparr>minEmployees = None, maxEmployees = Some 0, name = NameNull\<rparr>
                  zero_store)
           = Inr (map company_row [c0])"
    using findAll_falsy_name_zero_bounds
            [THEN conjunct2, THEN conjunct1,
             of "\<lparr>minEmployees = None, maxEmployees = Some 0, name = NameNull\<rparr>" zero_store]
    by (simp add: js_gt_def zero_store_def test_store_def c0_def c1_def c3_def
          del: sql_text.simps)
  have 4: "companies zero_store = [c3, c0, c1]"
    by (simp add: zero_store_def)
  from 1 2 3 4 show ?thesis by blast
qed

section \<open>Statements issued and the partial update\<close>

text \<open>Every call of \<open>db.query\<close> adds its statement and bind values to the log, and nothing else does.\<close>

lemma exec_issued: "exec q binds st = Inr (rows, st') \<Longrightarrow> issued st' = issued st"
  by (cases q)
     (auto simp: Let_def split: list.splits val.splits if_splits option.splits)

lemma db_query_issued:
  "issued (snd (db_query q binds st)) = issued st @ [(sql_text q, binds)]"
  using exec_issued [of q binds "st\<lparr>issued := issued st @ [(sql_text q, binds)]\<rparr>"]
  by (auto simp: db_query_def Let_def simp del: sql_text.simps exec.simps split: sum.splits)

lemma builder:
  "upd \<noteq> [] \<Longrightarrow>
   sqlForPartialUpdate upd jsToSql =
     Inr (map (\<lambda>(colName, idx).
                 (case map_of jsToSql colName of None \<Rightarrow> colName | Some col \<Rightarrow> col, idx + 1))
            (zip (map fst upd) [0 ..< length upd]),
          map snd upd)"
  by (simp add: sqlForPartialUpdate_def)

lemma update_issued:
  "upd \<noteq> [] \<Longrightarrow>
   issued (snd (Company_update h upd st)) =
     issued st @ [(sql_text (UpdateCompany
        (fst (projr (sqlForPartialUpdate upd
             [(''numEmployees'', ''num_employees''), (''logoUrl'', ''logo_url'')])))
         (length upd + 1)), map snd upd @ [VStr h])]"
  using db_query_issued [of "UpdateCompany
        (fst (projr (sqlForPartialUpdate upd
             [(''numEmployees'', ''num_employees''), (''logoUrl'', ''logo_url'')])))
         (length upd + 1)" "map snd upd @ [VStr h]" st]
  by (auto simp: Company_update_def builder simp del: sql_text.simps split: sum.splits prod.splits list.splits)

text \<open>
  C1. For a non-empty update the builder returns one assignment per field of the input:
  the \<open>i\<close>-th assignment names the column of the \<open>i\<close>-th field and the placeholder
  \<open>$(i+1)\<close>, and the bind values are the values of the fields in the same order.
  \<open>Company.update\<close> issues the \<open>UPDATE\<close> with that \<open>SET\<close> clause and with the bind
  values followed by the handle, which is the last bind value. The text of the statement
  depends on the names of the fields only: another update of the same fields, with any
  values and any handle, issues the same text.
\<close>

theorem update_placeholders:
  assumes "upd \<noteq> []"
  shows "\<exists>setCols binds.
      sqlForPartialUpdate upd jsToSql = Inr (setCols, map snd upd)
    \<and> length setCols = length upd
    \<and> (\<forall>i < length upd.
          setCols ! i =
            (case map_of jsToSql (fst (upd ! i)) of None \<Rightarrow> fst (upd ! i) | Some col \<Rightarrow> col,
             i + 1))
    \<and> setCols_text setCols = join '', '' (map (\<lambda>a. fst a @ '' = $'' @ decimal (snd a)) setCols)
    \<and> (jsToSql = [(''numEmployees'', ''num_employees''), (''logoUrl'', ''logo_url'')] \<longrightarrow>
          issued (snd (Company_update h upd st)) =
            issued st
            @ [(''UPDATE companies SET '' @ setCols_text setCols
                @ '' WHERE handle = $'' @ decimal (length upd + 1)
                @ '' RETURNING '' @ company_columns, binds)]
          \<and> binds = map snd upd @ [VStr h]
          \<and> last binds = VStr h
          \<and> (\<forall>upd' h' st'. map fst upd' = map fst upd \<longrightarrow>
                fst (last (issued (snd (Company_update h' upd' st'))))
                = fst (last (issued (snd (Company_update h upd st))))))"
proof -
  let ?col = "\<lambda>k. case map_of jsToSql k of None \<Rightarrow> k | Some col \<Rightarrow> col"
  let ?cols = "\<lambda>u. map (\<lambda>(colName, idx). (?col colName, idx + 1))
                   (zip (map fst u) [0 ..< length (u :: obj)])"
  have b: "sqlForPartialUpdate upd jsToSql = Inr (?cols upd, map snd upd)"
    using assms by (rule builder)
  have l: "length (?cols upd) = length upd"
    by simp
  have n: "\<forall>i < length upd. ?cols upd ! i = (?col (fst (upd ! i)), i + 1)"
    by simp
  have t: "setCols_text (?cols upd)
           = join '', '' (map (\<lambda>a. fst a @ '' = $'' @ decimal (snd a)) (?cols upd))"
  proof -
    have "assignment_text = (\<lambda>a. fst a @ '' = $'' @ decimal (snd a))"
    proof
      fix a show "assignment_text a = fst a @ '' = $'' @ decimal (snd a)"
        by (cases a) simp
    qed
    then show ?thesis by (simp only: setCols_text_def)
  qed
  have u: "jsToSql = [(''numEmployees'', ''num_employees''), (''logoUrl'', ''logo_url'')] \<longrightarrow>
          issued (snd (Company_update h upd st)) =
            issued st
            @ [(''UPDATE companies SET '' @ setCols_text (?cols upd)
                @ '' WHERE handle = $'' @ decimal (length upd + 1)
                @ '' RETURNING '' @ company_columns, map snd upd @ [VStr h])]
          \<and> (\<forall>upd' h' st'. map fst upd' = map fst upd \<longrightarrow>
                fst (last (issued (snd (Company_update h' upd' st'))))
                = fst (last (issued (snd (Company_update h upd st)))))"
  proof (intro impI conjI allI)
    assume j: "jsToSql = [(''numEmployees'', ''num_employees''), (''logoUrl'', ''logo_url'')]"
    show "issued (snd (Company_update h upd st)) =
            issued st
            @ [(''UPDATE companies SET '' @ setCols_text (?cols upd)
                @ '' WHERE handle = $'' @ decimal (length upd + 1)
                @ '' RETURNING '' @ company_columns, map snd upd @ [VStr h])]"
      using update_issued [OF assms, of h st] b j by simp
  next
    fix upd' :: obj and h' st'
    assume j: "jsToSql = [(''numEmployees'', ''num_employees''), (''logoUrl'', ''logo_url'')]"
      and k: "map fst upd' = map fst upd"
    from k assms have ne: "upd' \<noteq> []" by auto
    from k have len: "length upd' = length upd" by (metis length_map)
    have b': "sqlForPartialUpdate upd' jsToSql = Inr (?cols upd', map snd upd')"
      using ne by (rule builder)
    have same: "?cols upd' = ?cols upd"
      by (simp only: k len)
    show "fst (last (issued (snd (Company_update h' upd' st'))))
          = fst (last (issued (snd (Company_update h upd st))))"
      using update_issued [OF assms, of h st] update_issued [OF ne, of h' st'] b b' j same len
      by (simp del: sql_text.simps) 
  qed
  from b l n t u show ?thesis
    by (intro exI [of _ "?cols upd"] exI [of _ "map snd upd @ [VStr h]"]) simp
qed

theorem update_placeholders_witness:
  "sqlForPartialUpdate [(''numEmployees'', VNum 7), (''name'', VStr ''New'')]
      [(''numEmployees'', ''num_employees''), (''logoUrl'', ''logo_url'')]
     = Inr ([(''num_employees'', 1), (''name'', 2)], [VNum 7, VStr ''New''])
   \<and> issued (snd (Company_update ''c1'' [(''numEmployees'', VNum 7), (''name'', VStr ''New'')]
                   test_store))
     = [(''UPDATE companies SET num_employees = $1, name = $2 WHERE handle = $3 RETURNING ''
         @ company_columns,
         [VNum 7, VStr ''New'', VStr ''c1''])]"
  using update_placeholders
          [of "[(''numEmployees'', VNum 7), (''name'', VStr ''New'')]"
              "[(''numEmployees'', ''num_employees''), (''logoUrl'', ''logo_url'')]"
              "''c1''" test_store]
  by (auto simp add: sqlForPartialUpdate_def setCols_text_def decimal_digit
        test_store_def upt_rec)

section \<open>Updating and removing what does not exist\<close>

text \<open>The builder's clause for an update the store takes is one the store accepts.\<close>

lemma builder_columns:
  "map fst (map (\<lambda>(colName, idx). (f colName, Suc idx)) (zip ks [0 ..< length ks])) = map f ks"
  by (rule nth_equalityI) simp_all


lemma builder_only:
  assumes ne: "upd \<noteq> []"
    and ok: "assignments_ok accepts (map snd upd @ extra)
               (map (\<lambda>(colName, idx).
                      (case map_of jsToSql colName of None \<Rightarrow> colName | Some col \<Rightarrow> col, Suc idx))
                 (zip (map fst upd) [0 ..< length upd]))"
  shows "updatable jsToSql accepts upd"
proof -
  let ?f = "\<lambda>k. case map_of jsToSql k of None \<Rightarrow> k | Some col \<Rightarrow> col"
  let ?cols = "map (\<lambda>(colName, idx). (?f colName, Suc idx)) (zip (map fst upd) [0 ..< length upd])"
  have "map fst ?cols = map ?f (map fst upd)"
    using builder_columns [of ?f "map fst upd"] by simp
  with ok have d: "distinct (map (\<lambda>p. column_of jsToSql (fst p)) upd)"
    by (simp add: assignments_ok_def column_of_def [abs_def] comp_def)
  have a: "list_all (\<lambda>p. accepts (column_of jsToSql (fst p)) (snd p)) upd"
    unfolding list_all_length
  proof (intro allI impI)
    fix i assume i: "i < length upd"
    then have "i < length ?cols" by simp
    with ok have "assignment_ok accepts (map snd upd @ extra) (?cols ! i)"
      by (simp add: assignments_ok_def list_all_length del: nth_map)
    with i show "accepts (column_of jsToSql (fst (upd ! i))) (snd (upd ! i))"
      by (simp add: assignment_ok_def bind_def nth_append column_of_def)
  qed
  from ne d a show ?thesis by (simp add: updatable_def)
qed



text \<open>
  The conditions on the update are exact: an update of a company that does not meet
  them is rejected before any row is looked at, by the builder if it has no field and by
  the store otherwise, whether or not the handle exists.
\<close>

lemma Company_update_rejected:
  assumes "\<not> updatable [(''numEmployees'', ''num_employees''), (''logoUrl'', ''logo_url'')]
               (reads company_coltype) upd"
  shows "fst (Company_update h upd st) =
           (if upd = [] then Inl (BadRequestError ''No data'') else Inl (StoreError ''statement''))"
proof (cases "upd = []")
  case True
  then show ?thesis by (simp add: Company_update_def sqlForPartialUpdate_def)
next
  case False
  with assms builder_only [of upd "reads company_coltype" "[VStr h]"
        "[(''numEmployees'', ''num_employees''), (''logoUrl'', ''logo_url'')]"]
  have "\<not> assignments_ok (reads company_coltype) (map snd upd @ [VStr h])
               (map (\<lambda>(colName, idx).
                      (case map_of [(''numEmployees'', ''num_employees''), (''logoUrl'', ''logo_url'')] colName of None \<Rightarrow> colName | Some col \<Rightarrow> col, Suc idx))
                 (zip (map fst upd) [0 ..< length upd]))"
    by blast
  with False show ?thesis
    by (simp add: Company_update_def builder db_query_def Let_def del: sql_text.simps map_of.simps)
qed













section \<open>Creating what exists already\<close>

lemma filter_key_absent: "k \<notin> set (map f xs) \<Longrightarrow> filter (\<lambda>x. f x = k) xs = []"
  by (induction xs) auto

lemma filter_key_present: "k \<in> set (map f xs) \<Longrightarrow> filter (\<lambda>x. f x = k) xs \<noteq> []"
  by (induction xs) auto

lemma stored_company:
  "set_column ''logo_url'' (opt_str (logoUrl c))
     \<lparr>handle = handle c, name = company.name c, description = description c,
      numEmployees = numEmployees c, logoUrl = None\<rparr> = (c :: company)"
  by (cases c) (simp add: set_column_def opt_str_def split: option.splits)

lemma logo_accepted: "column_accepts ''logo_url'' (opt_str l)"
  by (simp add: column_accepts_def opt_str_def split: option.splits)

lemma Company_create_duplicate:
  assumes "handle c \<in> set (map handle (companies st))"
  shows "Company_create c st =
    (Inl (BadRequestError (''Duplicate company: '' @ handle c)),
     st\<lparr>issued := issued st @ [(sql_text SelectCompanyHandle, [VStr (handle c)])]\<rparr>)"
proof -
  from assms have "filter (\<lambda>d. handle d = handle c) (companies st) \<noteq> []"
    by (rule filter_key_present)
  then show ?thesis
    by (simp add: Company_create_def db_query_def rows0_def del: sql_text.simps split: list.splits)
qed

lemma Company_create_new:
  assumes "handle c \<notin> set (map handle (companies st))"
  shows "Company_create c st =
    (Inr (VObj (company_row c)),
     st\<lparr>companies := companies st @ [c],
        issued := issued st
          @ [(sql_text SelectCompanyHandle, [VStr (handle c)]),
             (sql_text InsertCompany,
              [VStr (handle c), VStr (company.name c), VStr (description c),
               VNum (numEmployees c), opt_str (logoUrl c)])]\<rparr>)"
proof -
  from assms have "filter (\<lambda>d. handle d = handle c) (companies st) = []"
    by (rule filter_key_absent)
  with assms show ?thesis
    by (simp add: Company_create_def db_query_def rows0_def stored_company logo_accepted
          del: sql_text.simps)
qed

lemma register_new:
  assumes "username d \<notin> set (map user.username (users st))"
  shows "\<exists>st1. User_register b d st =
           (Inr [(''username'', VStr (username d)), (''firstName'', VStr (firstName d)),
                 (''lastName'', VStr (lastName d)), (''email'', VStr (email d)),
                 (''isAdmin'', VBool (case isAdmin d of None \<Rightarrow> False | Some a \<Rightarrow> a))],
            st1)
         \<and> users st1 = users st
               @ [\<lparr>user.username = username d, user.password = hash b (password d),
                   user.firstName = firstName d, user.lastName = lastName d,
                   user.email = email d,
                   user.isAdmin = (case isAdmin d of None \<Rightarrow> False | Some a \<Rightarrow> a)\<rparr>]
         \<and> User_register b d st1 = (Inl (BadRequestError ''Duplicate username''), st1)"
proof -
  from assms have "filter (\<lambda>u. user.username u = username d) (users st) = []"
    by (rule filter_key_absent)
  then show ?thesis
    by (simp add: User_register_def user_row_def delete_prop_def Let_def)
qed

lemma register_duplicate:
  assumes "username d \<in> set (map user.username (users st))"
  shows "User_register b d st = (Inl (BadRequestError ''Duplicate username''), st)"
proof -
  from assms have "filter (\<lambda>u. user.username u = username d) (users st) \<noteq> []"
    by (rule filter_key_present)
  then show ?thesis
    by (simp add: User_register_def)
qed

text \<open>
  C5. \<open>Company.create\<close> with a handle that exists fails with the BadRequest error
  "Duplicate company", and the only statement issued is the lookup: the error comes from
  the lookup, not from the store's unique key. With a new handle it issues the lookup
  and the insert, the row is stored, and the stored row is returned. \<open>User.register\<close>
  with a username that exists fails with "Duplicate username"; with a new username it
  succeeds, stores the user with the hashed password, and a second call with the same
  data then fails with "Duplicate username".
\<close>

theorem create_duplicate:
  "(handle c \<in> set (map handle (companies st)) \<longrightarrow>
      Company_create c st =
        (Inl (BadRequestError (''Duplicate company: '' @ handle c)),
         st\<lparr>issued := issued st @ [(sql_text SelectCompanyHandle, [VStr (handle c)])]\<rparr>))
   \<and> (handle c \<notin> set (map handle (companies st)) \<longrightarrow>
      Company_create c st =
        (Inr (VObj (company_row c)),
         st\<lparr>companies := companies st @ [c],
            issued := issued st
              @ [(sql_text SelectCompanyHandle, [VStr (handle c)]),
                 (sql_text InsertCompany,
                  [VStr (handle c), VStr (company.name c), VStr (description c),
                   VNum (numEmployees c), opt_str (logoUrl c)])]\<rparr>))
   \<and> (username d \<in> set (map user.username (users st)) \<longrightarrow>
      User_register b d st = (Inl (BadRequestError ''Duplicate username''), st))
   \<and> (username d \<notin> set (map user.username (users st)) \<longrightarrow>
      (\<exists>st1. User_register b d st =
           (Inr [(''username'', VStr (username d)), (''firstName'', VStr (firstName d)),
                 (''lastName'', VStr (lastName d)), (''email'', VStr (email d)),
                 (''isAdmin'', VBool (case isAdmin d of None \<Rightarrow> False | Some a \<Rightarrow> a))],
            st1)
         \<and> users st1 = users st
               @ [\<lparr>user.username = username d, user.password = hash b (password d),
                   user.firstName = firstName d, user.lastName = lastName d,
                   user.email = email d,
                   user.isAdmin = (case isAdmin d of None \<Rightarrow> False | Some a \<Rightarrow> a)\<rparr>]
         \<and> User_register b d st1 = (Inl (BadRequestError ''Duplicate username''), st1)))"
  using Company_create_duplicate [of c st] Company_create_new [of c st]
    register_duplicate [of d st b] register_new [of d st b]
  by blast

theorem create_duplicate_witness:
  "fst (Company_create c1 test_store) = Inl (BadRequestError ''Duplicate company: c1'')
   \<and> fst (Company_create (c1\<lparr>handle := ''new''\<rparr>) test_store)
       = Inr (VObj (company_row (c1\<lparr>handle := ''new''\<rparr>)))
   \<and> fst (User_register test_hasher (new_user\<lparr>username := ''u1''\<rparr>) test_store)
       = Inl (BadRequestError ''Duplicate username'')
   \<and> (\<exists>st1. snd (User_register test_hasher new_user test_store) = st1
         \<and> fst (User_register test_hasher new_user st1)
            = Inl (BadRequestError ''Duplicate username''))"
  using create_duplicate [of c1 test_store "new_user\<lparr>username := ''u1''\<rparr>" test_hasher]
    create_duplicate [of "c1\<lparr>handle := ''new''\<rparr>" test_store new_user test_hasher]
  by (auto simp add: test_store_def c1_def c2_def c3_def u1_def u2_def new_user_def
        simp del: sql_text.simps)

section \<open>Company.get\<close>

lemma find_filter: "find P xs = Some c \<Longrightarrow> \<exists>cs. filter P xs = c # cs"
  by (induction xs) (auto split: if_splits)

lemma set_prop_new: "k \<notin> set (map fst ob) \<Longrightarrow> set_prop ob k v = ob @ [(k, v)]"
  by (induction ob) auto

lemma Company_get_absent:
  assumes "h \<notin> set (map handle (companies st))"
  shows "fst (Company_get h st) = Inl (NotFoundError (''No company: '' @ h))"
proof -
  from assms have "filter (\<lambda>c. handle c = h) (companies st) = []"
    by (rule filter_key_absent)
  then show ?thesis
    by (simp add: Company_get_def db_query_def del: sql_text.simps)
qed

lemma Company_get_present:
  assumes "find (\<lambda>c. handle c = h) (companies st) = Some c"
  shows "fst (Company_get h st) =
           Inr (company_row c
                @ [(''jobs'', VArr (map (VObj \<circ> job_row)
                       (sort_key jid (filter (\<lambda>j. companyHandle j = h) (jobs st)))))])"
proof -
  from find_filter [OF assms] obtain cs where
    "filter (\<lambda>c. handle c = h) (companies st) = c # cs" by blast
  moreover have "set_prop (company_row c) ''jobs'' v = company_row c @ [(''jobs'', v)]" for v
    by (rule set_prop_new) (simp add: company_row_def)
  ultimately show ?thesis
    by (simp add: Company_get_def db_query_def del: sql_text.simps)
qed

text \<open>
  C6. \<open>Company.get\<close> throws the NotFound error "No company" when no company has
  the handle. Otherwise it returns the company's row with a last property \<open>jobs\<close>: the
  jobs of that company, each with its id, title, salary and equity, in ascending order
  of id.
\<close>

theorem get_with_jobs:
  "(h \<notin> set (map handle (companies st)) \<longrightarrow>
      fst (Company_get h st) = Inl (NotFoundError (''No company: '' @ h)))
   \<and> (find (\<lambda>c. handle c = h) (companies st) = Some c \<longrightarrow>
      (\<exists>js. fst (Company_get h st)
               = Inr (company_row c @ [(''jobs'', VArr (map (VObj \<circ> job_row) js))])
            \<and> js = sort_key jid (filter (\<lambda>j. companyHandle j = h) (jobs st))
            \<and> sorted (map jid js)
            \<and> set js = {j \<in> set (jobs st). companyHandle j = h}))"
  using Company_get_absent [of h st] Company_get_present [of h st c]
  by auto

theorem get_with_jobs_witness:
  "fst (Company_get ''nope'' test_store) = Inl (NotFoundError ''No company: nope'')
   \<and> fst (Company_get ''c1'' test_store)
       = Inr (company_row c1 @ [(''jobs'', VArr [VObj (job_row job1), VObj (job_row job2)])])
   \<and> jobs test_store = [job2, job1] \<and> jid job1 < jid job2"
  using get_with_jobs [of "''nope''" test_store c1] get_with_jobs [of "''c1''" test_store c1]
  by (simp add: test_store_def c1_def c2_def c3_def job1_def job2_def)

section \<open>Authentication and applications\<close>

text \<open>
  C7. \<open>User.authenticate\<close> throws the Unauthorized error with one and the same message,
  "Invalid username/password", when no user has the username and when the password does
  not check against the stored hash. When it checks, the user is returned as an object
  with the username, the names, the email and the admin flag, and no \<open>password\<close> key.
\<close>

theorem authenticate_generic:
  "(n \<notin> set (map user.username (users st)) \<longrightarrow>
      User_authenticate b n pw st = Inl (UnauthorizedError ''Invalid username/password''))
   \<and> (find (\<lambda>u. user.username u = n) (users st) = Some u
        \<and> \<not> compare b pw (user.password u) \<longrightarrow>
      User_authenticate b n pw st = Inl (UnauthorizedError ''Invalid username/password''))
   \<and> (find (\<lambda>u. user.username u = n) (users st) = Some u
        \<and> compare b pw (user.password u) \<longrightarrow>
      (\<exists>ob. User_authenticate b n pw st = Inr ob
            \<and> ob = [(''username'', VStr n), (''firstName'', VStr (user.firstName u)),
                     (''lastName'', VStr (user.lastName u)), (''email'', VStr (user.email u)),
                     (''isAdmin'', VBool (user.isAdmin u))]
            \<and> ''password'' \<notin> set (map fst ob)))"
proof (intro conjI impI)
  assume "n \<notin> set (map user.username (users st))"
  then have "filter (\<lambda>u. user.username u = n) (users st) = []"
    by (rule filter_key_absent)
  then show "User_authenticate b n pw st = Inl (UnauthorizedError ''Invalid username/password'')"
    by (simp add: User_authenticate_def)
next
  assume a: "find (\<lambda>u. user.username u = n) (users st) = Some u
        \<and> \<not> compare b pw (user.password u)"
  then have "find (\<lambda>u. user.username u = n) (users st) = Some u" by simp
  from find_filter [OF this] obtain us where
    "filter (\<lambda>u. user.username u = n) (users st) = u # us" by blast
  with a show "User_authenticate b n pw st = Inl (UnauthorizedError ''Invalid username/password'')"
    by (simp add: User_authenticate_def)
next
  assume a: "find (\<lambda>u. user.username u = n) (users st) = Some u
        \<and> compare b pw (user.password u)"
  then have fs: "find (\<lambda>u. user.username u = n) (users st) = Some u" by simp
  from find_filter [OF this] obtain us where
    f: "filter (\<lambda>u. user.username u = n) (users st) = u # us" by blast
  from fs have "user.username u = n"
    by (auto simp: find_Some_iff)
  with a f show "\<exists>ob. User_authenticate b n pw st = Inr ob
            \<and> ob = [(''username'', VStr n), (''firstName'', VStr (user.firstName u)),
                     (''lastName'', VStr (user.lastName u)), (''email'', VStr (user.email u)),
                     (''isAdmin'', VBool (user.isAdmin u))]
            \<and> ''password'' \<notin> set (map fst ob)"
    by (simp add: User_authenticate_def user_row_def delete_prop_def)
qed

theorem authenticate_generic_witness:
  "User_authenticate test_hasher ''nope'' ''password'' test_store
     = Inl (UnauthorizedError ''Invalid username/password'')
   \<and> User_authenticate test_hasher ''u1'' ''wrong'' test_store
     = Inl (UnauthorizedError ''Invalid username/password'')
   \<and> User_authenticate test_hasher ''u1'' ''password1'' test_store
     = Inr [(''username'', VStr ''u1''), (''firstName'', VStr ''U1F''),
            (''lastName'', VStr ''U1L''), (''email'', VStr ''u1@email.com''),
            (''isAdmin'', VBool False)]"
  using authenticate_generic [of "''nope''" test_store test_hasher "''password''" u1]
    authenticate_generic [of "''u1''" test_store test_hasher "''wrong''" u1]
    authenticate_generic [of "''u1''" test_store test_hasher "''password1''" u1]
  by (simp add: test_store_def test_hasher_def u1_def u2_def)

text \<open>
  C8. \<open>User.applyToJob\<close>: a missing job (the user existing) gives the NotFound error
  "No job"; a missing user (the job existing) gives the NotFound error "No username";
  with both missing it is one of the two. With both present, an existing application of
  that user for that job gives the BadRequest error "Already applied"; otherwise the
  application is inserted, with the status given or, without one, "applied". On every
  error the store is unchanged.
\<close>

theorem applyToJob_checks:
  "(i \<notin> set (map jid (jobs st)) \<and> n \<in> set (map user.username (users st)) \<longrightarrow>
      User_applyToJob n i s st = (Inl (NotFoundError ''No job''), st))
   \<and> (i \<in> set (map jid (jobs st)) \<and> n \<notin> set (map user.username (users st)) \<longrightarrow>
      User_applyToJob n i s st = (Inl (NotFoundError ''No username''), st))
   \<and> (i \<notin> set (map jid (jobs st)) \<and> n \<notin> set (map user.username (users st)) \<longrightarrow>
      (\<exists>m. User_applyToJob n i s st = (Inl (NotFoundError m), st)
           \<and> (m = ''No job'' \<or> m = ''No username'')))
   \<and> (i \<in> set (map jid (jobs st)) \<and> n \<in> set (map user.username (users st)) \<longrightarrow>
      ((\<exists>a \<in> set (applications st). applicant a = n \<and> jobId a = i) \<longrightarrow>
         User_applyToJob n i s st = (Inl (BadRequestError ''Already applied''), st))
      \<and> (\<not> (\<exists>a \<in> set (applications st). applicant a = n \<and> jobId a = i) \<longrightarrow>
         User_applyToJob n i s st =
           (Inr (),
            st\<lparr>applications := applications st
                 @ [\<lparr>applicant = n, jobId = i,
                     status = (case s of None \<Rightarrow> ''applied'' | Some x \<Rightarrow> x)\<rparr>]\<rparr>)))"
proof -
  have j0: "i \<notin> set (map jid (jobs st)) \<Longrightarrow> filter (\<lambda>j. jid j = i) (jobs st) = []"
    by (rule filter_key_absent)
  have j1: "i \<in> set (map jid (jobs st)) \<Longrightarrow> filter (\<lambda>j. jid j = i) (jobs st) \<noteq> []"
    by (rule filter_key_present)
  have u0: "n \<notin> set (map user.username (users st))
            \<Longrightarrow> filter (\<lambda>u. user.username u = n) (users st) = []"
    by (rule filter_key_absent)
  have u1: "n \<in> set (map user.username (users st))
            \<Longrightarrow> filter (\<lambda>u. user.username u = n) (users st) \<noteq> []"
    by (rule filter_key_present)
  have a: "filter (\<lambda>a. applicant a = n \<and> jobId a = i) (applications st) \<noteq> []
           \<longleftrightarrow> (\<exists>a \<in> set (applications st). applicant a = n \<and> jobId a = i)"
    by (auto simp: filter_empty_conv)
  show ?thesis
    using j0 j1 u0 u1 a
    by (simp add: User_applyToJob_def Let_def)
qed

theorem applyToJob_checks_witness:
  "User_applyToJob ''u1'' 0 None test_store = (Inl (NotFoundError ''No job''), test_store)
   \<and> User_applyToJob ''nope'' 1 None test_store = (Inl (NotFoundError ''No username''), test_store)
   \<and> User_applyToJob ''u1'' 1 None test_store = (Inl (BadRequestError ''Already applied''), test_store)
   \<and> applications (snd (User_applyToJob ''u1'' 2 None test_store))
       = [\<lparr>applicant = ''u1'', jobId = 1, status = ''applied''\<rparr>,
          \<lparr>applicant = ''u1'', jobId = 2, status = ''applied''\<rparr>]
   \<and> applications (snd (User_applyToJob ''u2'' 2 (Some ''interviewed'') test_store))
       = [\<lparr>applicant = ''u1'', jobId = 1, status = ''applied''\<rparr>,
          \<lparr>applicant = ''u2'', jobId = 2, status = ''interviewed''\<rparr>]"
  using applyToJob_checks [of 0 test_store "''u1''" None]
    applyToJob_checks [of 1 test_store "''nope''" None]
    applyToJob_checks [of 1 test_store "''u1''" None]
    applyToJob_checks [of 2 test_store "''u1''" None]
    applyToJob_checks [of 2 test_store "''u2''" "Some ''interviewed''"]
  by (simp add: test_store_def job1_def job2_def u1_def u2_def)

section \<open>Failures of a request\<close>

text \<open>
  C9, as amended. When the request is rejected with an error that carries a response
  with the envelope \<open>{error: {message}}\<close>, the client throws the message itself if it
  is an array, and the one-element array of the message otherwise; so a message that is
  a string or an array of strings surfaces as an array of strings, however many errors
  it stands for.
\<close>

theorem request_failure:
  assumes "axios \<lparr>url = base @ ''/'' @ endpoint, http_method = meth, data = dat,
                  params = (if meth = ''get'' then dat else VObj []),
                  headers = [(''Authorization'', VStr (''Bearer '' @ token))]\<rparr> = Rejected err"
    and "get_prop err ''response'' = Inr response"
    and "get_prop response ''data'' = Inr body"
    and "get_prop body ''error'' = Inr e"
    and "get_prop e ''message'' = Inr message"
  shows "request axios base token endpoint dat meth
           = Inl (Thrown (if isArray message then message else VArr [message]))
         \<and> (\<forall>s. message = VStr s \<longrightarrow>
               request axios base token endpoint dat meth = Inl (Thrown (VArr [VStr s])))
         \<and> (\<forall>ms. message = VArr ms \<longrightarrow>
               request axios base token endpoint dat meth = Inl (Thrown (VArr ms)))
         \<and> ((\<exists>s. message = VStr s) \<or> string_array message \<longrightarrow>
               (\<exists>v. request axios base token endpoint dat meth = Inl (Thrown v)
                    \<and> string_array v))"
proof -
  have r: "request axios base token endpoint dat meth
           = Inl (Thrown (if isArray message then message else VArr [message]))"
    using assms by (simp add: request_def)
  have a: "(\<exists>s. message = VStr s) \<or> string_array message \<Longrightarrow>
           string_array (if isArray message then message else VArr [message])"
    by (auto simp: string_array_def isArray_def split: val.splits)
  from r a show ?thesis
    by (auto simp: isArray_def)
qed

theorem request_failure_witness:
  "request (\<lambda>c. Rejected (VObj [(''response'', VObj [(''data'',
        VObj [(''error'', VObj [(''message'', VStr ''No company: nope''),
                                (''status'', VNum 404)])])])]))
      ''http://localhost:3001'' ''token'' ''companies/nope'' (VObj []) ''get''
     = Inl (Thrown (VArr [VStr ''No company: nope'']))"
  using request_failure
    [of "\<lambda>c. Rejected (VObj [(''response'', VObj [(''data'',
        VObj [(''error'', VObj [(''message'', VStr ''No company: nope''),
                                (''status'', VNum 404)])])])])"
        "''http://localhost:3001''" "''companies/nope''" "''get''" "VObj []" "''token''"
        "VObj [(''response'', VObj [(''data'',
        VObj [(''error'', VObj [(''message'', VStr ''No company: nope''),
                                (''status'', VNum 404)])])])]"
        "VObj [(''data'',
        VObj [(''error'', VObj [(''message'', VStr ''No company: nope''),
                                (''status'', VNum 404)])])]"
        "VObj [(''error'', VObj [(''message'', VStr ''No company: nope''),
                                (''status'', VNum 404)])]"
        "VObj [(''message'', VStr ''No company: nope''), (''status'', VNum 404)]"
        "VStr ''No company: nope''"]
  by (simp add: get_prop_def isArray_def)

text \<open>
  The claim as stated fails for a failure without a response, such as a network error:
  reading \<open>err.response.data\<close> throws a \<open>TypeError\<close>, which is not an array.
\<close>

theorem request_network_error_counterexample:
  "request (\<lambda>c. Rejected (VObj [(''message'', VStr ''Network Error'')]))
      ''http://localhost:3001'' ''token'' ''companies'' (VObj []) ''get''
     = Inl TypeError"
  by (simp add: request_def get_prop_def)

end
